theory Spec2Isabelle
  imports Main "HOL-Library.Sublist" "HOL-Library.AList"
begin

section \<open>JavaScript values\<close>

text \<open>
  The server is TypeScript running on Node. Strings are modelled as \<^typ>\<open>string\<close>, an optional
  argument \<open>x?: string\<close> as \<^typ>\<open>string option\<close> (\<open>None\<close> is \<open>undefined\<close>), and a thrown
  \<open>new Error(msg)\<close> as the value \<open>Error msg\<close> on the left of a sum. Console output is
  modelled only in the shutdown sequence, where the order of effects is the subject.
\<close>

datatype error = Error string | TypeError string

text \<open>\<open>!v\<close> for an optional string: \<open>undefined\<close> and the empty string are falsy.\<close>

definition truthy :: "string option \<Rightarrow> bool" where
  "truthy v = (case v of None \<Rightarrow> False | Some s \<Rightarrow> s \<noteq> [])"

text \<open>A template literal prints \<open>undefined\<close> for a missing value.\<close>

definition template :: "string option \<Rightarrow> string" where
  "template v = (case v of None \<Rightarrow> ''undefined'' | Some s \<Rightarrow> s)"

text \<open>\<open>Array.prototype.join\<close> on an array of strings.\<close>

fun join :: "string list \<Rightarrow> string \<Rightarrow> string" where
  "join [] sep = []"
| "join [x] sep = x"
| "join (x # y # ys) sep = x @ sep @ join (y # ys) sep"

text \<open>
  \<open>String.prototype.trim\<close>, on the white space and line terminators of the ASCII range
  (TAB, LF, VT, FF, CR, SP).
\<close>

definition is_white_space :: "char \<Rightarrow> bool" where
  "is_white_space c = (c \<in> set [CHR 0x09, CHR 0x0A, CHR 0x0B, CHR 0x0C, CHR 0x0D, CHR 0x20])"

definition trim :: "string \<Rightarrow> string" where
  "trim s = rev (dropWhile is_white_space (rev (dropWhile is_white_space s)))"

datatype content = TextContent string

section \<open>Shell runner\<close>

text \<open>
  \<open>execAsync(command, {cwd})\<close> spawns a shell. The shell and git are outside the program:
  they are a parameter \<open>ex\<close> that maps a command, a working directory and the state of
  the outside world to a result and a new world. The runner state also records every
  command handed to the shell, in order.
\<close>

datatype exec_result = Rejected string | Resolved string string

type_synonym 'w exec = "string \<Rightarrow> string \<Rightarrow> 'w \<Rightarrow> exec_result \<times> 'w"

record 'w shell =
  world :: 'w
  observed :: "(string \<times> string) list"

definition execAsync :: "'w exec \<Rightarrow> string \<Rightarrow> string \<Rightarrow> 'w shell \<Rightarrow> exec_result \<times> 'w shell" where
  "execAsync ex command cwd s =
     (case ex command cwd (world s) of
        (r, w') \<Rightarrow> (r, \<lparr>world = w', observed = observed s @ [(cwd, command)]\<rparr>))"

definition getGitStatus :: "'w exec \<Rightarrow> string \<Rightarrow> 'w shell \<Rightarrow> (error + string \<times> string) \<times> 'w shell" where
  "getGitStatus ex repoPath s =
     (case execAsync ex ''git status --porcelain'' repoPath s of
        (Rejected _, s1) \<Rightarrow> (Inl (Error ''Failed to get git status''), s1)
      | (Resolved status _, s1) \<Rightarrow>
          (case execAsync ex ''git diff'' repoPath s1 of
             (Rejected _, s2) \<Rightarrow> (Inl (Error ''Failed to get git status''), s2)
           | (Resolved diff _, s2) \<Rightarrow> (Inr (status, diff), s2)))"

section \<open>The generate-commit-message tool (HTTP server, index.ts)\<close>

record gcm_params =
  gcm_changes :: "string option"
  gcm_context :: "string option"
  gcm_repoPath :: "string option"

text \<open>The body of the \<open>try\<close> block.\<close>

definition generate_commit_message_try ::
    "'w exec \<Rightarrow> gcm_params \<Rightarrow> 'w shell \<Rightarrow> (error + content list) \<times> 'w shell" where
  "generate_commit_message_try ex params s =
     (case (if \<not> truthy (gcm_changes params) \<and> truthy (gcm_repoPath params)
            then (case getGitStatus ex (the (gcm_repoPath params)) s of
                    (Inl e, s1) \<Rightarrow> (Inl e, s1)
                  | (Inr (status, diff), s1) \<Rightarrow>
                      (Inr (Some (''Git Status:\<newline>'' @ status @ ''\<newline>\<newline>Diff:\<newline>'' @ diff)), s1))
            else (Inr (gcm_changes params), s)) of
        (Inl e, s1) \<Rightarrow> (Inl e, s1)
      | (Inr changes, s1) \<Rightarrow>
          if \<not> truthy changes
          then (Inl (Error ''Changes parameter is required or repo path must be provided''), s1)
          else (Inr [TextContent
                  (''Please generate a clear and descriptive commit message for the following changes:\<newline>\<newline>''
                   @ template changes @ ''\<newline>\<newline>''
                   @ (if truthy (gcm_context params)
                      then ''Additional context:\<newline>'' @ template (gcm_context params)
                      else ''''))], s1))"

text \<open>The \<open>catch\<close> block replaces every error of the body by one fixed error.\<close>

definition generate_commit_message ::
    "'w exec \<Rightarrow> gcm_params \<Rightarrow> 'w shell \<Rightarrow> (error + content list) \<times> 'w shell" where
  "generate_commit_message ex params s =
     (case generate_commit_message_try ex params s of
        (Inl e, s1) \<Rightarrow> (Inl (Error ''Failed to generate commit message. Please try again.''), s1)
      | (Inr r, s1) \<Rightarrow> (Inr r, s1))"

section \<open>The stdio server (the earlier entry point)\<close>

text \<open>
  The earlier entry point registers the tool and the prompt with a schema
  \<open>{changes: z.string(), context: z.string().optional()}\<close>: \<open>changes\<close> is any string.
\<close>

definition generate_commit_message_stdio :: "string \<Rightarrow> string option \<Rightarrow> content list" where
  "generate_commit_message_stdio changes context_arg =
     [TextContent
        (''Please generate a clear and descriptive commit message for the following changes:\<newline>\<newline>''
         @ changes @ ''\<newline>\<newline>''
         @ (if truthy context_arg then ''Additional context:\<newline>'' @ template context_arg else ''''))]"

datatype prompt_message = PromptMessage (role: string) (content: content)

definition commit_message_prompt :: "string \<Rightarrow> string option \<Rightarrow> prompt_message list" where
  "commit_message_prompt changes context_arg =
     [PromptMessage ''user'' (TextContent
        (''Please generate a clear and descriptive commit message for the following changes:\<newline>\<newline>''
         @ changes @ ''\<newline>\<newline>''
         @ (if truthy context_arg then ''Additional context:\<newline>'' @ template context_arg else '''')))]"

section \<open>The commit-changes tool\<close>

record cc_params =
  cc_repoPath :: string
  cc_message :: string
  cc_files :: "string list option"

text \<open>The command of the staging step: \<open>files.join(' ')\<close> is put into the line unquoted.\<close>

definition stage_command :: "string list option \<Rightarrow> string" where
  "stage_command files =
     (case files of
        None \<Rightarrow> ''git add .''
      | Some fs \<Rightarrow> if length fs > 0 then ''git add '' @ join fs '' '' else ''git add .'')"

definition commit_command :: "string \<Rightarrow> string" where
  "commit_command message = ''git commit -m '' @ [CHR 0x22] @ message @ [CHR 0x22]"

definition commit_changes_try ::
    "'w exec \<Rightarrow> cc_params \<Rightarrow> 'w shell \<Rightarrow> (error + content list) \<times> 'w shell" where
  "commit_changes_try ex params s =
     (if cc_repoPath params = [] \<or> cc_message params = []
      then (Inl (Error ''Repository path and commit message are required''), s)
      else
        (case execAsync ex (stage_command (cc_files params)) (cc_repoPath params) s of
           (Rejected e, s1) \<Rightarrow> (Inl (Error e), s1)
         | (Resolved _ _, s1) \<Rightarrow>
             (case execAsync ex (commit_command (cc_message params)) (cc_repoPath params) s1 of
                (Rejected e, s2) \<Rightarrow> (Inl (Error e), s2)
              | (Resolved _ _, s2) \<Rightarrow>
                  (case execAsync ex ''git rev-parse HEAD'' (cc_repoPath params) s2 of
                     (Rejected e, s3) \<Rightarrow> (Inl (Error e), s3)
                   | (Resolved commitHash _, s3) \<Rightarrow>
                       (Inr [TextContent (''Changes committed successfully.\<newline>Commit Hash: ''
                                          @ trim commitHash)], s3)))))"

definition commit_changes ::
    "'w exec \<Rightarrow> cc_params \<Rightarrow> 'w shell \<Rightarrow> (error + content list) \<times> 'w shell" where
  "commit_changes ex params s =
     (case commit_changes_try ex params s of
        (Inl e, s1) \<Rightarrow> (Inl (Error ''Failed to commit changes''), s1)
      | (Inr r, s1) \<Rightarrow> (Inr r, s1))"

text \<open>
  What the shell makes of a command line that has no quotes and no metacharacters: it
  splits the line into fields at blanks. The first field is the program, the rest are
  its arguments; for \<open>git add\<close> the arguments after \<open>add\<close> are the paths it stages.
\<close>

definition is_blank :: "char \<Rightarrow> bool" where
  "is_blank c = (c \<in> set [CHR 0x20, CHR 0x09, CHR 0x0A])"

fun fields_from :: "string \<Rightarrow> string \<Rightarrow> string list" where
  "fields_from cur [] = (if cur = [] then [] else [cur])"
| "fields_from cur (c # cs) =
     (if is_blank c then (if cur = [] then fields_from [] cs else cur # fields_from [] cs)
      else fields_from (cur @ [c]) cs)"

definition sh_fields :: "string \<Rightarrow> string list" where
  "sh_fields line = fields_from [] line"

definition staged_paths :: "string \<Rightarrow> string list" where
  "staged_paths command = drop 2 (sh_fields command)"

section \<open>A shell for the examples\<close>

text \<open>
  A stand-in for git in the concrete evaluations below: every command succeeds, and the
  world counts the commands run.
\<close>

definition demo_exec :: "nat exec" where
  "demo_exec command cwd w =
     (if command = ''git status --porcelain'' then Resolved '' M a.txt\<newline>'' ''''
      else if command = ''git diff'' then Resolved ''+x\<newline>'' ''''
      else if command = ''git rev-parse HEAD'' then Resolved ''4b825dc\<newline>'' ''''
      else Resolved '''' '''', Suc w)"

definition demo_shell :: "nat shell" where
  "demo_shell = \<lparr>world = 0, observed = []\<rparr>"

text \<open>And one outside a repository: every command fails.\<close>

definition failing_exec :: "nat exec" where
  "failing_exec command cwd w = (Rejected ''fatal: not a git repository'', w)"

section \<open>The source-host client and the resources and tools that call it\<close>

text \<open>
  The remote API client (Octokit) is outside the program: each of its operations is a
  parameter that maps a request to the data returned or to the value thrown. A thrown
  value is described by what the handlers test: \<open>error instanceof Error\<close>, and
  \<open>error.status\<close> where the property exists.
\<close>

datatype thrown = Thrown (instanceof_Error: bool) (status: "nat option")

datatype author = Author (name: "string option") (date: "string option")

datatype commit = Commit (sha: string) (author: "author option") (message: string)

record list_commits_request =
  lc_owner :: string
  lc_repo :: string
  lc_sha :: "string option"
  lc_per_page :: nat

datatype resource_content = ResourceContent (uri: string) (body: string)

text \<open>\<open>commit.commit.author?.name\<close>: \<open>undefined\<close> when the commit has no author.\<close>

definition author_name :: "commit \<Rightarrow> string option" where
  "author_name c = (case author c of None \<Rightarrow> None | Some a \<Rightarrow> name a)"

definition author_date :: "commit \<Rightarrow> string option" where
  "author_date c = (case author c of None \<Rightarrow> None | Some a \<Rightarrow> date a)"

definition commit_text :: "commit \<Rightarrow> string" where
  "commit_text c =
     ''Commit: '' @ sha c @ ''\<newline>Author: '' @ template (author_name c)
     @ ''\<newline>Message: '' @ message c @ ''\<newline>Date: '' @ template (author_date c)"

definition github_commits ::
    "(list_commits_request \<Rightarrow> thrown + commit list) \<Rightarrow> string \<Rightarrow> string \<Rightarrow> string \<Rightarrow> string option
       \<Rightarrow> error + resource_content list" where
  "github_commits listCommits href owner repo branch =
     (if owner = [] \<or> repo = [] then Inl (Error ''Owner and repository parameters are required'')
      else
        (case listCommits \<lparr>lc_owner = owner, lc_repo = repo, lc_sha = branch, lc_per_page = 10\<rparr> of
           Inr commits \<Rightarrow> Inr (map (\<lambda>c. ResourceContent href (commit_text c)) commits)
         | Inl e \<Rightarrow>
             if instanceof_Error e \<and> status e = Some 404
             then Inl (Error (''Repository '' @ owner @ ''/'' @ repo @ '' not found''))
             else if instanceof_Error e \<and> status e = Some 403
             then Inl (Error ''Access denied. Please check your GitHub token permissions'')
             else Inl (Error ''Failed to fetch commits. Please try again later.'')))"

text \<open>A number in a template literal: its decimal digits.\<close>

function decimal :: "nat \<Rightarrow> string" where
  "decimal n = (if n < 10 then [char_of (48 + n)] else decimal (n div 10) @ [char_of (48 + n mod 10)])"
  by pat_completeness auto
termination
  by (relation "measure id") auto



text \<open>The pull requests of a repository.\<close>

datatype pull = Pull (number: nat) (title: string) (user_login: "string option")
  (state: string) (created_at: string) (updated_at: string)

record list_pulls_request =
  lp_owner :: string
  lp_repo :: string
  lp_state :: string
  lp_sort :: string
  lp_direction :: string

definition pull_text :: "pull \<Rightarrow> string" where
  "pull_text pr =
     ''PR #'' @ decimal (number pr) @ '': '' @ title pr @ ''\<newline>Author: '' @ template (user_login pr)
     @ ''\<newline>Status: '' @ state pr @ ''\<newline>Created: '' @ created_at pr
     @ ''\<newline>Updated: '' @ updated_at pr"

definition github_pulls ::
    "(list_pulls_request \<Rightarrow> thrown + pull list) \<Rightarrow> string \<Rightarrow> string \<Rightarrow> string
       \<Rightarrow> error + resource_content list" where
  "github_pulls list_pulls href owner repo =
     (if owner = [] \<or> repo = [] then Inl (Error ''Owner and repository parameters are required'')
      else
        (case list_pulls \<lparr>lp_owner = owner, lp_repo = repo, lp_state = ''open'',
                          lp_sort = ''updated'', lp_direction = ''desc''\<rparr> of
           Inr pulls \<Rightarrow> Inr (map (\<lambda>pr. ResourceContent href (pull_text pr)) pulls)
         | Inl e \<Rightarrow> Inl (Error ''Failed to fetch pull requests'')))"

text \<open>
  The two pull-request tools run their whole body in a \<open>try\<close>: what the body throws is
  either an error of its own or the value thrown by the remote call, and the \<open>catch\<close>
  block replaces both by one fixed error.
\<close>

record merge_params =
  mp_owner :: string
  mp_repo :: string
  mp_pullNumber :: nat
  mp_mergeMethod :: "string option"
  mp_commitMessage :: "string option"

record merge_request =
  mr_owner :: string
  mr_repo :: string
  mr_pull_number :: nat
  mr_merge_method :: string
  mr_commit_message :: "string option"

datatype merge_result = MergeResult (merge_sha: string) (merge_message: string)

definition merge_pull_request_try ::
    "(merge_request \<Rightarrow> thrown + merge_result) \<Rightarrow> merge_params \<Rightarrow> (error + thrown) + content list" where
  "merge_pull_request_try merge params =
     (if mp_owner params = [] \<or> mp_repo params = [] \<or> mp_pullNumber params = 0
      then Inl (Inl (Error ''Owner, repo, and pull request number are required''))
      else
        (case merge \<lparr>mr_owner = mp_owner params, mr_repo = mp_repo params,
                      mr_pull_number = mp_pullNumber params,
                      mr_merge_method =
                        (if truthy (mp_mergeMethod params) then template (mp_mergeMethod params)
                         else ''merge''),
                      mr_commit_message = mp_commitMessage params\<rparr> of
           Inl e \<Rightarrow> Inl (Inr e)
         | Inr mergeResult \<Rightarrow>
             Inr [TextContent (''Pull request #'' @ decimal (mp_pullNumber params)
                    @ '' merged successfully.\<newline>Merge SHA: '' @ merge_sha mergeResult
                    @ ''\<newline>Message: '' @ merge_message mergeResult)]))"

definition merge_pull_request ::
    "(merge_request \<Rightarrow> thrown + merge_result) \<Rightarrow> merge_params \<Rightarrow> error + content list" where
  "merge_pull_request merge params =
     (case merge_pull_request_try merge params of
        Inl e \<Rightarrow> Inl (Error ''Failed to merge pull request'')
      | Inr r \<Rightarrow> Inr r)"

record create_params =
  cp_owner :: string
  cp_repo :: string
  cp_title :: string
  cp_body :: "string option"
  cp_head :: string
  cp_base :: string

datatype created_pull = CreatedPull (created_number: nat) (html_url: string)

definition create_pull_request_try ::
    "(create_params \<Rightarrow> thrown + created_pull) \<Rightarrow> create_params \<Rightarrow> (error + thrown) + content list" where
  "create_pull_request_try create params =
     (if cp_owner params = [] \<or> cp_repo params = [] \<or> cp_title params = []
         \<or> cp_head params = [] \<or> cp_base params = []
      then Inl (Inl (Error ''Owner, repo, title, head branch, and base branch are required''))
      else
        (case create params of
           Inl e \<Rightarrow> Inl (Inr e)
         | Inr pr \<Rightarrow>
             Inr [TextContent (''Pull request created successfully.\<newline>Number: #''
                    @ decimal (created_number pr) @ ''\<newline>URL: '' @ html_url pr)]))"

definition create_pull_request ::
    "(create_params \<Rightarrow> thrown + created_pull) \<Rightarrow> create_params \<Rightarrow> error + content list" where
  "create_pull_request create params =
     (case create_pull_request_try create params of
        Inl e \<Rightarrow> Inl (Error ''Failed to create pull request'')
      | Inr r \<Rightarrow> Inr r)"

section \<open>Session transport registry\<close>

text \<open>
  \<open>new SSEServerTransport('/messages', res)\<close>: the SDK's constructor generates the session
  id (a random UUID). The id it generated is an argument of the model's constructor;
  \<open>res\<close> names the HTTP response the event stream is written to.
\<close>

datatype transport = SSEServerTransport (endpoint: string) (res: nat) (sessionId: string)

text \<open>
  \<open>const transports = {}\<close> is a plain object. Its own properties are kept as an association
  list in insertion order (the order of \<open>Object.values\<close> for keys that are not array
  indices). A property read that finds no own property goes on to \<open>Object.prototype\<close>,
  whose members are all functions or objects, hence truthy.
\<close>

type_synonym registry = "(string \<times> transport) list"

definition object_prototype_keys :: "string list" where
  "object_prototype_keys =
     [''constructor'', ''__defineGetter__'', ''__defineSetter__'', ''hasOwnProperty'',
      ''__lookupGetter__'', ''__lookupSetter__'', ''isPrototypeOf'', ''propertyIsEnumerable'',
      ''toString'', ''valueOf'', ''__proto__'', ''toLocaleString'']"

datatype property = Undefined | OwnProperty transport | InheritedProperty string

definition js_get :: "registry \<Rightarrow> string \<Rightarrow> property" where
  "js_get obj k =
     (case map_of obj k of
        Some v \<Rightarrow> OwnProperty v
      | None \<Rightarrow> if k \<in> set object_prototype_keys then InheritedProperty k else Undefined)"

text \<open>
  \<open>obj[k] = v\<close> creates or overwrites an own property, except for \<open>__proto__\<close>, which goes
  to the inherited setter and creates none. The ids stored are the SDK's UUIDs, so a run
  never takes that branch; the model keeps the own properties right there and does not
  follow the replaced prototype.
\<close>

definition js_set :: "registry \<Rightarrow> string \<Rightarrow> transport \<Rightarrow> registry" where
  "js_set obj k v = (if k = ''__proto__'' then obj else AList.update k v obj)"

definition js_delete :: "registry \<Rightarrow> string \<Rightarrow> registry" where
  "js_delete obj k = AList.delete k obj"

definition object_values :: "registry \<Rightarrow> transport list" where
  "object_values obj = map snd obj"

text \<open>
  \<open>app.get('/sse')\<close>: stores the new transport under its id. The \<open>close\<close> listener of the
  response is \<open>res_on_close\<close>. What \<open>server.connect\<close> does is the SDK's.
\<close>

definition app_get_sse :: "registry \<Rightarrow> nat \<Rightarrow> string \<Rightarrow> registry \<times> transport" where
  "app_get_sse transports response generated_id =
     (let transport = SSEServerTransport ''/messages'' response generated_id
      in (js_set transports (sessionId transport) transport, transport))"

definition res_on_close :: "registry \<Rightarrow> transport \<Rightarrow> registry" where
  "res_on_close transports transport = js_delete transports (sessionId transport)"

text \<open>
  \<open>app.post('/messages')\<close>: the session id is the query parameter (\<open>undefined\<close> when the
  query has none, which reads the property named \<open>undefined\<close>). The handler either hands
  the request to the transport found (the SDK then runs the capability handler), or sends
  a response itself, or throws: a truthy value that is no transport has no
  \<open>handlePostMessage\<close> to call.
\<close>

datatype post_outcome = HandlePostMessage transport | Response nat string | Throws error

definition app_post_messages :: "registry \<Rightarrow> string option \<Rightarrow> post_outcome" where
  "app_post_messages transports query_sessionId =
     (case js_get transports (template query_sessionId) of
        OwnProperty transport \<Rightarrow> HandlePostMessage transport
      | InheritedProperty _ \<Rightarrow> Throws (TypeError ''transport.handlePostMessage is not a function'')
      | Undefined \<Rightarrow> Response 400 ''No transport found for sessionId'')"

section \<open>Lifecycle\<close>

text \<open>
  \<open>shutdown\<close> as the sequence of its effects. Every transport's \<open>close()\<close> is called
  inside a promise executor of its own, so a \<open>close()\<close> that throws (\<open>close_throws\<close>)
  rejects that promise only: the other calls are made all the same, \<open>Promise.all\<close>
  rejects, the \<open>catch\<close> block logs, and the \<open>finally\<close> block exits.
\<close>

datatype effect = ConsoleLog string | ConsoleError string | TransportClose transport | ProcessExit nat

definition shutdown :: "(transport \<Rightarrow> bool) \<Rightarrow> registry \<Rightarrow> nat \<Rightarrow> effect list" where
  "shutdown close_throws transports exitCode =
     [ConsoleLog ''\<newline>Shutting down gracefully...'']
     @ map TransportClose (object_values transports)
     @ [if list_ex close_throws (object_values transports)
        then ConsoleError ''Error during shutdown:''
        else ConsoleLog ''All transports closed successfully'']
     @ [ProcessExit exitCode]"

datatype process_event = SIGTERM | SIGINT | UncaughtException | UnhandledRejection

definition process_on :: "(transport \<Rightarrow> bool) \<Rightarrow> registry \<Rightarrow> process_event \<Rightarrow> effect list" where
  "process_on close_throws transports ev =
     (case ev of
        SIGTERM \<Rightarrow> ConsoleLog ''Received SIGTERM signal'' # shutdown close_throws transports 0
      | SIGINT \<Rightarrow> ConsoleLog ''Received SIGINT signal'' # shutdown close_throws transports 0
      | UncaughtException \<Rightarrow> ConsoleError ''Uncaught Exception:'' # shutdown close_throws transports 1
      | UnhandledRejection \<Rightarrow> ConsoleError ''Unhandled Rejection at:'' # shutdown close_throws transports 1)"

text \<open>The transports closed by a run, in order, and the exit statuses it reaches.\<close>

fun closes :: "effect list \<Rightarrow> transport list" where
  "closes [] = []"
| "closes (TransportClose t # es) = t # closes es"
| "closes (_ # es) = closes es"

fun exits :: "effect list \<Rightarrow> nat list" where
  "exits [] = []"
| "exits (ProcessExit n # es) = n # exits es"
| "exits (_ # es) = exits es"

section \<open>Properties of generate-commit-message\<close>

lemma generate_commit_message_given:
  assumes "c \<noteq> []"
  shows "generate_commit_message ex \<lparr>gcm_changes = Some c, gcm_context = k, gcm_repoPath = rp\<rparr> s =
           (Inr [TextContent
              (''Please generate a clear and descriptive commit message for the following changes:\<newline>\<newline>''
               @ c @ ''\<newline>\<newline>''
               @ (if truthy k then ''Additional context:\<newline>'' @ template k else ''''))], s)"
  using assms
  by (simp add: generate_commit_message_def generate_commit_message_try_def truthy_def template_def)

lemma getGitStatus_demo:
  "getGitStatus demo_exec ''/repo'' demo_shell =
     (Inr ('' M a.txt\<newline>'', ''+x\<newline>''),
      \<lparr>world = 2, observed = [(''/repo'', ''git status --porcelain''), (''/repo'', ''git diff'')]\<rparr>)"
  by (simp add: getGitStatus_def execAsync_def demo_exec_def demo_shell_def)


lemma generate_commit_message_derived:
  assumes "\<not> truthy c" "rp \<noteq> []" "getGitStatus ex rp s = (Inr (st, df), s1)"
  shows "generate_commit_message ex \<lparr>gcm_changes = c, gcm_context = k, gcm_repoPath = Some rp\<rparr> s =
           (Inr [TextContent
              (''Please generate a clear and descriptive commit message for the following changes:\<newline>\<newline>''
               @ (''Git Status:\<newline>'' @ st @ ''\<newline>\<newline>Diff:\<newline>'' @ df) @ ''\<newline>\<newline>''
               @ (if truthy k then ''Additional context:\<newline>'' @ template k else ''''))], s1)"
  using assms
  by (simp add: generate_commit_message_def generate_commit_message_try_def truthy_def template_def)

lemma generate_commit_message_unresolvable:
  assumes "\<not> truthy c" "\<not> truthy rp"
  shows "generate_commit_message_try ex \<lparr>gcm_changes = c, gcm_context = k, gcm_repoPath = rp\<rparr> s =
           (Inl (Error ''Changes parameter is required or repo path must be provided''), s)"
    and "generate_commit_message ex \<lparr>gcm_changes = c, gcm_context = k, gcm_repoPath = rp\<rparr> s =
           (Inl (Error ''Failed to generate commit message. Please try again.''), s)"
  using assms
  by (simp_all add: generate_commit_message_def generate_commit_message_try_def)


text \<open>The tool of the earlier entry point and the prompt expand the same template.\<close>

lemma stdio_tool_prompt_same_template:
  "generate_commit_message_stdio changes k = map content (commit_message_prompt changes k)"
  by (simp add: commit_message_prompt_def generate_commit_message_stdio_def)

text \<open>
  Claim C8. Called with \<open>changes = "foo"\<close> and no context, generate-commit-message returns
  a prompt that contains \<open>foo\<close> and does not contain \<open>Additional context\<close>; called with
  \<open>changes = "foo"\<close> and \<open>context = "bar"\<close>, the prompt contains \<open>foo\<close> and \<open>bar\<close>, the
  latter right under the line \<open>Additional context:\<close>. This holds for the tool of both entry
  points, whatever the repository path and the shell.
\<close>

theorem generate_commit_message_foo_bar:
  "(\<exists>t. fst (generate_commit_message ex
              \<lparr>gcm_changes = Some ''foo'', gcm_context = None, gcm_repoPath = rp\<rparr> s) = Inr [TextContent t]
        \<and> sublist ''foo'' t \<and> \<not> sublist ''Additional context'' t)
   \<and> (\<exists>t. fst (generate_commit_message ex
              \<lparr>gcm_changes = Some ''foo'', gcm_context = Some ''bar'', gcm_repoPath = rp\<rparr> s) = Inr [TextContent t]
        \<and> sublist ''foo'' t \<and> sublist ''bar'' t \<and> sublist ''Additional context:\<newline>bar'' t)
   \<and> (\<exists>t. generate_commit_message_stdio ''foo'' None = [TextContent t]
        \<and> sublist ''foo'' t \<and> \<not> sublist ''Additional context'' t)
   \<and> (\<exists>t. generate_commit_message_stdio ''foo'' (Some ''bar'') = [TextContent t]
        \<and> sublist ''foo'' t \<and> sublist ''bar'' t \<and> sublist ''Additional context:\<newline>bar'' t)"
proof -
  let ?t1 = "''Please generate a clear and descriptive commit message for the following changes:\<newline>\<newline>foo\<newline>\<newline>''"
  let ?t2 = "''Please generate a clear and descriptive commit message for the following changes:\<newline>\<newline>foo\<newline>\<newline>Additional context:\<newline>bar''"
  have a1: "sublist ''foo'' ?t1" by code_simp
  have a2: "\<not> sublist ''Additional context'' ?t1" by code_simp
  have b1: "sublist ''foo'' ?t2" by code_simp
  have b2: "sublist ''bar'' ?t2" by code_simp
  have b3: "sublist ''Additional context:\<newline>bar'' ?t2" by code_simp
  have g1: "fst (generate_commit_message ex
              \<lparr>gcm_changes = Some ''foo'', gcm_context = None, gcm_repoPath = rp\<rparr> s) = Inr [TextContent ?t1]"
    by (simp add: generate_commit_message_given truthy_def)
  have g2: "fst (generate_commit_message ex
              \<lparr>gcm_changes = Some ''foo'', gcm_context = Some ''bar'', gcm_repoPath = rp\<rparr> s) = Inr [TextContent ?t2]"
    by (simp add: generate_commit_message_given truthy_def template_def)
  have h1: "generate_commit_message_stdio ''foo'' None = [TextContent ?t1]"
    by (simp add: generate_commit_message_stdio_def truthy_def)
  have h2: "generate_commit_message_stdio ''foo'' (Some ''bar'') = [TextContent ?t2]"
    by (simp add: generate_commit_message_stdio_def truthy_def template_def)
  from a1 a2 b1 b2 b3 g1 g2 h1 h2 show ?thesis by blast
qed



text \<open>
  Claim C10, as amended. For every non-empty \<open>changes\<close> string and every optional
  \<open>context\<close>, the content returned by the generate-commit-message tool is the text of the
  messages of the commit-message prompt, which is one message of role \<open>user\<close>; the tool
  runs no shell command on the way. The tool of the earlier entry point agrees with the
  prompt for every \<open>changes\<close> string, the empty one included.
\<close>

theorem tool_prompt_same_template:
  "changes \<noteq> [] \<Longrightarrow>
     generate_commit_message ex
       \<lparr>gcm_changes = Some changes, gcm_context = k, gcm_repoPath = rp\<rparr> s =
       (Inr (map content (commit_message_prompt changes k)), s)
     \<and> map role (commit_message_prompt changes k) = [''user'']
     \<and> generate_commit_message_stdio changes k = map content (commit_message_prompt changes k)"
  by (simp add: generate_commit_message_given commit_message_prompt_def generate_commit_message_stdio_def)

text \<open>The amended claim at \<open>changes = "foo"\<close>, \<open>context = "bar"\<close>.\<close>

theorem tool_prompt_same_template_witness:
  "generate_commit_message demo_exec
       \<lparr>gcm_changes = Some ''foo'', gcm_context = Some ''bar'', gcm_repoPath = None\<rparr> demo_shell =
       (Inr (map content (commit_message_prompt ''foo'' (Some ''bar''))), demo_shell)
   \<and> map content (commit_message_prompt ''foo'' (Some ''bar'')) =
       [TextContent ''Please generate a clear and descriptive commit message for the following changes:\<newline>\<newline>foo\<newline>\<newline>Additional context:\<newline>bar'']"
proof -
  have "''foo'' \<noteq> ''''" by simp
  from tool_prompt_same_template [OF this, of demo_exec "Some ''bar''" None demo_shell]
  show ?thesis by (simp add: commit_message_prompt_def truthy_def template_def)
qed

text \<open>
  Claim C10 as stated fails at the empty \<open>changes\<close> string, which the tool's guard
  \<open>!changes\<close> treats as absent: without a repository path the tool returns no text at all,
  and with one it embeds the text derived from git, while the prompt embeds the empty
  string.
\<close>

theorem tool_prompt_differ_on_empty_changes:
  "fst (generate_commit_message demo_exec
          \<lparr>gcm_changes = Some '''', gcm_context = None, gcm_repoPath = None\<rparr> demo_shell)
     \<noteq> Inr (map content (commit_message_prompt '''' None))
   \<and> fst (generate_commit_message demo_exec
          \<lparr>gcm_changes = Some '''', gcm_context = None, gcm_repoPath = Some ''/repo''\<rparr> demo_shell)
     \<noteq> Inr (map content (commit_message_prompt '''' None))"
proof -
  have "generate_commit_message demo_exec
          \<lparr>gcm_changes = Some '''', gcm_context = None, gcm_repoPath = None\<rparr> demo_shell =
        (Inl (Error ''Failed to generate commit message. Please try again.''), demo_shell)"
    by (rule generate_commit_message_unresolvable(2)) (simp_all add: truthy_def)
  moreover have "generate_commit_message demo_exec
          \<lparr>gcm_changes = Some '''', gcm_context = None, gcm_repoPath = Some ''/repo''\<rparr> demo_shell =
     (Inr [TextContent
        (''Please generate a clear and descriptive commit message for the following changes:\<newline>\<newline>''
               @ (''Git Status:\<newline>'' @ '' M a.txt\<newline>'' @ ''\<newline>\<newline>Diff:\<newline>'' @ ''+x\<newline>'') @ ''\<newline>\<newline>''
               @ (if truthy None then ''Additional context:\<newline>'' @ template None else ''''))],
      \<lparr>world = 2, observed = [(''/repo'', ''git status --porcelain''), (''/repo'', ''git diff'')]\<rparr>)"
    by (rule generate_commit_message_derived [OF _ _ getGitStatus_demo]) (simp_all add: truthy_def)
  ultimately show ?thesis
    by (simp add: commit_message_prompt_def truthy_def)
qed

text \<open>
  Claim C5 (the code does not meet it). With neither \<open>changes\<close> nor \<open>repoPath\<close> the body
  of the tool throws the error that names the missing arguments, before any shell
  command. The \<open>throw\<close> stands inside the \<open>try\<close> block, so the \<open>catch\<close> block replaces it:
  the caller gets the generic failure, the very one a failing shell command gives (third
  conjunct), and cannot tell a validation error from an execution error.
\<close>

theorem missing_arguments_generic_failure:
  "generate_commit_message_try ex
     \<lparr>gcm_changes = None, gcm_context = k, gcm_repoPath = None\<rparr> s =
     (Inl (Error ''Changes parameter is required or repo path must be provided''), s)
   \<and> generate_commit_message ex
     \<lparr>gcm_changes = None, gcm_context = k, gcm_repoPath = None\<rparr> s =
     (Inl (Error ''Failed to generate commit message. Please try again.''), s)
   \<and> fst (generate_commit_message failing_exec
     \<lparr>gcm_changes = None, gcm_context = k, gcm_repoPath = Some ''/repo''\<rparr> demo_shell) =
     Inl (Error ''Failed to generate commit message. Please try again.'')"
  by (simp add: generate_commit_message_def generate_commit_message_try_def truthy_def
        getGitStatus_def execAsync_def failing_exec_def)

section \<open>Properties of the resources and tools that call the source host\<close>

text \<open>The commits resource maps the status of a remote failure to its own error.\<close>

lemma github_commits_error_mapping:
  assumes "owner \<noteq> []" "repo \<noteq> []"
    and "listCommits \<lparr>lc_owner = owner, lc_repo = repo, lc_sha = branch, lc_per_page = 10\<rparr> = Inl e"
  shows "github_commits listCommits href owner repo branch =
           Inl (Error (if instanceof_Error e \<and> status e = Some 404
                       then ''Repository '' @ owner @ ''/'' @ repo @ '' not found''
                       else if instanceof_Error e \<and> status e = Some 403
                       then ''Access denied. Please check your GitHub token permissions''
                       else ''Failed to fetch commits. Please try again later.''))"
  using assms by (simp add: github_commits_def)

text \<open>The other three operations give one fixed error for every remote failure.\<close>

lemma github_pulls_any_failure:
  assumes "owner \<noteq> []" "repo \<noteq> []"
    and "list_pulls \<lparr>lp_owner = owner, lp_repo = repo, lp_state = ''open'',
                     lp_sort = ''updated'', lp_direction = ''desc''\<rparr> = Inl e"
  shows "github_pulls list_pulls href owner repo = Inl (Error ''Failed to fetch pull requests'')"
  using assms by (simp add: github_pulls_def)

lemma merge_pull_request_any_failure:
  "merge_pull_request_try merge params = Inl e \<Longrightarrow>
     merge_pull_request merge params = Inl (Error ''Failed to merge pull request'')"
  by (simp add: merge_pull_request_def)

lemma create_pull_request_any_failure:
  "create_pull_request_try create params = Inl e \<Longrightarrow>
     create_pull_request create params = Inl (Error ''Failed to create pull request'')"
  by (simp add: create_pull_request_def)

text \<open>
  Claim C4 (the code does not meet it). A remote 404 is to surface as a not-found failure
  that names \<open>owner/repo\<close>, for every operation of the adapter. The commits resource does
  so (last conjunct). The pulls resource and the merge and create tools catch whatever the
  remote call throws and throw one fixed error: for the repository \<open>octocat/missing\<close> a
  remote 404 surfaces as the same generic failure as a remote 500.
\<close>

theorem pulls_not_found_is_generic:
  "github_pulls (\<lambda>_. Inl (Thrown True (Some 404))) href ''octocat'' ''missing'' =
     Inl (Error ''Failed to fetch pull requests'')
   \<and> github_pulls (\<lambda>_. Inl (Thrown True (Some 500))) href ''octocat'' ''missing'' =
     Inl (Error ''Failed to fetch pull requests'')
   \<and> merge_pull_request (\<lambda>_. Inl (Thrown True (Some 404)))
       \<lparr>mp_owner = ''octocat'', mp_repo = ''missing'', mp_pullNumber = 1,
        mp_mergeMethod = None, mp_commitMessage = None\<rparr> =
     Inl (Error ''Failed to merge pull request'')
   \<and> create_pull_request (\<lambda>_. Inl (Thrown True (Some 404)))
       \<lparr>cp_owner = ''octocat'', cp_repo = ''missing'', cp_title = ''t'', cp_body = None,
        cp_head = ''h'', cp_base = ''b''\<rparr> =
     Inl (Error ''Failed to create pull request'')
   \<and> github_commits (\<lambda>_. Inl (Thrown True (Some 404))) href ''octocat'' ''missing'' None =
     Inl (Error ''Repository octocat/missing not found'')"
  by (simp add: github_pulls_def merge_pull_request_def merge_pull_request_try_def
        create_pull_request_def create_pull_request_try_def github_commits_def)



section \<open>Properties of commit-changes\<close>

lemma execAsync_observed:
  "execAsync ex command cwd s = (r, s1) \<Longrightarrow> observed s1 = observed s @ [(cwd, command)]"
  by (auto simp: execAsync_def split: prod.splits)

text \<open>Without a repository path or a message nothing is run.\<close>

lemma commit_changes_invalid:
  "cc_repoPath p = [] \<or> cc_message p = [] \<Longrightarrow>
     commit_changes ex p s = (Inl (Error ''Failed to commit changes''), s)"
  by (simp add: commit_changes_def commit_changes_try_def)

text \<open>
  The steps run in the order stage, commit, hash resolution; a step that fails ends the
  run with the failure, and the steps after it are not run.
\<close>

lemma commit_changes_stage_rejected:
  assumes "cc_repoPath p \<noteq> []" "cc_message p \<noteq> []"
    and "execAsync ex (stage_command (cc_files p)) (cc_repoPath p) s = (Rejected e, s1)"
  shows "commit_changes ex p s = (Inl (Error ''Failed to commit changes''), s1)"
    and "observed s1 = observed s @ [(cc_repoPath p, stage_command (cc_files p))]"
  using assms execAsync_observed [OF assms(3)]
  by (simp_all add: commit_changes_def commit_changes_try_def)

lemma commit_changes_commit_rejected:
  assumes "cc_repoPath p \<noteq> []" "cc_message p \<noteq> []"
    and "execAsync ex (stage_command (cc_files p)) (cc_repoPath p) s = (Resolved out1 err1, s1)"
    and "execAsync ex (commit_command (cc_message p)) (cc_repoPath p) s1 = (Rejected e, s2)"
  shows "commit_changes ex p s = (Inl (Error ''Failed to commit changes''), s2)"
    and "observed s2 = observed s @ [(cc_repoPath p, stage_command (cc_files p)),
                                      (cc_repoPath p, commit_command (cc_message p))]"
  using assms execAsync_observed [OF assms(3)] execAsync_observed [OF assms(4)]
  by (simp_all add: commit_changes_def commit_changes_try_def)

lemma commit_changes_rev_parse_rejected:
  assumes "cc_repoPath p \<noteq> []" "cc_message p \<noteq> []"
    and "execAsync ex (stage_command (cc_files p)) (cc_repoPath p) s = (Resolved out1 err1, s1)"
    and "execAsync ex (commit_command (cc_message p)) (cc_repoPath p) s1 = (Resolved out2 err2, s2)"
    and "execAsync ex ''git rev-parse HEAD'' (cc_repoPath p) s2 = (Rejected e, s3)"
  shows "commit_changes ex p s = (Inl (Error ''Failed to commit changes''), s3)"
    and "observed s3 = observed s @ [(cc_repoPath p, stage_command (cc_files p)),
                                      (cc_repoPath p, commit_command (cc_message p)),
                                      (cc_repoPath p, ''git rev-parse HEAD'')]"
  using assms execAsync_observed [OF assms(3)] execAsync_observed [OF assms(4)]
    execAsync_observed [OF assms(5)]
  by (simp_all add: commit_changes_def commit_changes_try_def)

lemma commit_changes_success:
  assumes "cc_repoPath p \<noteq> []" "cc_message p \<noteq> []"
    and "execAsync ex (stage_command (cc_files p)) (cc_repoPath p) s = (Resolved out1 err1, s1)"
    and "execAsync ex (commit_command (cc_message p)) (cc_repoPath p) s1 = (Resolved out2 err2, s2)"
    and "execAsync ex ''git rev-parse HEAD'' (cc_repoPath p) s2 = (Resolved commitHash err3, s3)"
  shows "commit_changes ex p s =
           (Inr [TextContent (''Changes committed successfully.\<newline>Commit Hash: '' @ trim commitHash)], s3)"
    and "observed s3 = observed s @ [(cc_repoPath p, stage_command (cc_files p)),
                                      (cc_repoPath p, commit_command (cc_message p)),
                                      (cc_repoPath p, ''git rev-parse HEAD'')]"
  using assms execAsync_observed [OF assms(3)] execAsync_observed [OF assms(4)]
    execAsync_observed [OF assms(5)]
  by (simp_all add: commit_changes_def commit_changes_try_def)

text \<open>With no files, or an empty list of files, everything is staged.\<close>

lemma stage_command_everything:
  "stage_command None = ''git add .''" "stage_command (Some []) = ''git add .''"
  by (simp_all add: stage_command_def)

text \<open>
  For names that are not empty and hold no blank, the paths the shell hands to
  \<open>git add\<close> are the named files, in order.
\<close>

lemma fields_from_word:
  "\<not> list_ex is_blank w \<Longrightarrow> fields_from cur (w @ rest) = fields_from (cur @ w) rest"
  by (induction w arbitrary: cur) simp_all

lemma fields_from_join:
  assumes "\<forall>f \<in> set fs. f \<noteq> [] \<and> \<not> list_ex is_blank f"
  shows "fields_from [] (join fs '' '') = fs"
  using assms
proof (induction fs "'' ''" rule: join.induct)
  case 1
  show ?case by simp
next
  case (2 x)
  then have "x \<noteq> []" "\<not> list_ex is_blank x" by simp_all
  with fields_from_word [of x "[]" "[]"] show ?case by simp
next
  case (3 x y ys)
  then have x: "x \<noteq> []" "\<not> list_ex is_blank x" by simp_all
  from 3 have ih: "fields_from [] (join (y # ys) '' '') = y # ys" by simp
  from fields_from_word [OF x(2), of "[]" "'' '' @ join (y # ys) '' ''"] x(1) ih
  show ?case by (simp add: is_blank_def)
qed

lemma staged_paths_plain_names:
  assumes "fs \<noteq> []" and "\<forall>f \<in> set fs. f \<noteq> [] \<and> \<not> list_ex is_blank f"
  shows "staged_paths (stage_command (Some fs)) = fs"
proof -
  have "sh_fields (''git add '' @ rest) = ''git'' # ''add'' # fields_from [] rest" for rest
    by (simp add: sh_fields_def is_blank_def)
  with assms fields_from_join [OF assms(2)] show ?thesis
    by (simp add: staged_paths_def stage_command_def)
qed

text \<open>
  Claim C6 (the code does not meet it). With non-empty \<open>files\<close>, exactly the named files
  are to be staged. The names are joined by spaces into the command line unquoted, so a
  name with a space in it is not one path for the shell: for \<open>files = ["my file.txt"]\<close>
  the run succeeds, with the three steps in order and the trimmed output of the last as
  the hash, but its staging command hands \<open>git add\<close> the two paths \<open>my\<close> and \<open>file.txt\<close>,
  not the file named.
\<close>

theorem unquoted_file_name_splits:
  "commit_changes demo_exec
     \<lparr>cc_repoPath = ''/repo'', cc_message = ''msg'', cc_files = Some [''my file.txt'']\<rparr> demo_shell =
     (Inr [TextContent ''Changes committed successfully.\<newline>Commit Hash: 4b825dc''],
      \<lparr>world = 3,
       observed = [(''/repo'', ''git add my file.txt''), (''/repo'', commit_command ''msg''),
                   (''/repo'', ''git rev-parse HEAD'')]\<rparr>)
   \<and> staged_paths ''git add my file.txt'' = [''my'', ''file.txt'']
   \<and> staged_paths ''git add my file.txt'' \<noteq> [''my file.txt'']"
  by (simp add: commit_changes_def commit_changes_try_def execAsync_def demo_exec_def demo_shell_def
        stage_command_def commit_command_def trim_def is_white_space_def
        staged_paths_def sh_fields_def is_blank_def)

section \<open>Properties of the session transport registry\<close>


lemma js_get_Undefined:
  "js_get r k = Undefined \<longleftrightarrow> map_of r k = None \<and> k \<notin> set object_prototype_keys"
  by (simp add: js_get_def split: option.splits)



text \<open>No operation of the registry makes a key occur twice, whatever the id.\<close>

lemma registry_keys_distinct:
  assumes "distinct (map fst r)"
  shows "distinct (map fst (fst (app_get_sse r response sid)))"
    and "distinct (map fst (res_on_close r t))"
  using assms
  by (simp_all add: app_get_sse_def js_set_def Let_def res_on_close_def js_delete_def
        distinct_update distinct_delete)





lemma no_query_parameter_rejected:
  "map_of r ''undefined'' = None \<Longrightarrow>
     app_post_messages r None = Response 400 ''No transport found for sessionId''"
  by (simp add: app_post_messages_def js_get_def template_def object_prototype_keys_def)

text \<open>An id without an entry that is the name of a member of \<open>Object.prototype\<close> is not.\<close>

lemma inherited_names_throw:
  "map_of r k = None \<Longrightarrow> k \<in> set object_prototype_keys \<Longrightarrow>
     app_post_messages r (Some k) = Throws (TypeError ''transport.handlePostMessage is not a function'')"
  by (simp add: app_post_messages_def js_get_def template_def)

text \<open>
  Claim C1 (the code does not meet it). Every message whose session id has no entry in
  the registry is to be rejected with a client error. The registry is a plain object and
  the handler tests \<open>transports[sessionId]\<close> for truthiness: for the id \<open>constructor\<close>,
  which was never created, the read finds \<open>Object.prototype.constructor\<close>, the test
  passes, and the call of \<open>handlePostMessage\<close> on that value throws a \<open>TypeError\<close>. No
  response with status 400 is sent, as it is for an id such as \<open>no-such-session\<close>.
\<close>

theorem inherited_name_not_rejected:
  "app_post_messages [] (Some ''constructor'') =
     Throws (TypeError ''transport.handlePostMessage is not a function'')
   \<and> app_post_messages [] (Some ''constructor'') \<noteq> Response 400 ''No transport found for sessionId''
   \<and> app_post_messages [] (Some ''no-such-session'') = Response 400 ''No transport found for sessionId''"
  by (simp add: app_post_messages_def js_get_def object_prototype_keys_def template_def)




section \<open>Properties of the lifecycle\<close>

lemma closes_map_close [simp]: "closes (map TransportClose ts @ es) = ts @ closes es"
  by (induction ts) simp_all

lemma exits_map_close [simp]: "exits (map TransportClose ts @ es) = exits es"
  by (induction ts) simp_all

lemma shutdown_effects:
  "closes (shutdown ct r n) = object_values r" "exits (shutdown ct r n) = [n]"
  "last (shutdown ct r n) = ProcessExit n"
  by (simp_all add: shutdown_def)

lemma shutdown_same_sequence: "butlast (shutdown ct r n) = butlast (shutdown ct r m)"
  by (simp add: shutdown_def butlast_append)

text \<open>
  Claim C3. On each of the four process events the handler logs and runs \<open>shutdown\<close>:
  \<open>close()\<close> is called on the transport of every entry of the registry, also when some
  of the calls throw, and the run then ends with the one exit of the process, which is
  its last effect: with status 0 for \<open>SIGTERM\<close> and \<open>SIGINT\<close>, with status 1 for an
  uncaught exception and an unhandled rejection. Up to that exit status the shutdown
  sequence is the same in both cases.
\<close>

theorem shutdown_closes_all_then_exits:
  "closes (process_on ct r ev) = map snd r
   \<and> (ev = SIGTERM \<or> ev = SIGINT \<longrightarrow>
        exits (process_on ct r ev) = [0] \<and> last (process_on ct r ev) = ProcessExit 0
        \<and> tl (process_on ct r ev) = shutdown ct r 0)
   \<and> (ev = UncaughtException \<or> ev = UnhandledRejection \<longrightarrow>
        exits (process_on ct r ev) = [1] \<and> last (process_on ct r ev) = ProcessExit 1
        \<and> tl (process_on ct r ev) = shutdown ct r 1)
   \<and> butlast (shutdown ct r 1) = butlast (shutdown ct r 0)"
  using shutdown_same_sequence [of ct r 1 0]
  by (cases ev) (simp_all add: process_on_def shutdown_effects object_values_def [symmetric],
      simp_all add: shutdown_def)

text \<open>
  The theorem at work: two open sessions and \<open>SIGTERM\<close> give both closes and then exit 0;
  an uncaught exception, with every \<open>close()\<close> throwing, still closes both and exits 1.
\<close>

theorem shutdown_closes_all_then_exits_witness:
  "process_on (\<lambda>_. False)
     [(''3f6c'', SSEServerTransport ''/messages'' 1 ''3f6c''),
      (''a81e'', SSEServerTransport ''/messages'' 2 ''a81e'')] SIGTERM =
     [ConsoleLog ''Received SIGTERM signal'',
      ConsoleLog ''\<newline>Shutting down gracefully...'',
      TransportClose (SSEServerTransport ''/messages'' 1 ''3f6c''),
      TransportClose (SSEServerTransport ''/messages'' 2 ''a81e''),
      ConsoleLog ''All transports closed successfully'',
      ProcessExit 0]
   \<and> exits (process_on (\<lambda>_. True)
     [(''3f6c'', SSEServerTransport ''/messages'' 1 ''3f6c''),
      (''a81e'', SSEServerTransport ''/messages'' 2 ''a81e'')] UncaughtException) = [1]
   \<and> closes (process_on (\<lambda>_. True)
     [(''3f6c'', SSEServerTransport ''/messages'' 1 ''3f6c''),
      (''a81e'', SSEServerTransport ''/messages'' 2 ''a81e'')] UncaughtException) =
     [SSEServerTransport ''/messages'' 1 ''3f6c'', SSEServerTransport ''/messages'' 2 ''a81e'']"
proof -
  let ?r = "[(''3f6c'', SSEServerTransport ''/messages'' 1 ''3f6c''),
      (''a81e'', SSEServerTransport ''/messages'' 2 ''a81e'')]"
  from shutdown_closes_all_then_exits [of "\<lambda>_. False" ?r SIGTERM]
  have a: "tl (process_on (\<lambda>_. False) ?r SIGTERM) = shutdown (\<lambda>_. False) ?r 0" by simp
  have b: "hd (process_on (\<lambda>_. False) ?r SIGTERM) = ConsoleLog ''Received SIGTERM signal''"
    and ne: "process_on (\<lambda>_. False) ?r SIGTERM \<noteq> []"
    by (simp_all add: process_on_def)
  from ne have "process_on (\<lambda>_. False) ?r SIGTERM =
      hd (process_on (\<lambda>_. False) ?r SIGTERM) # tl (process_on (\<lambda>_. False) ?r SIGTERM)"
    by simp
  with a b have c: "process_on (\<lambda>_. False) ?r SIGTERM =
      ConsoleLog ''Received SIGTERM signal'' # shutdown (\<lambda>_. False) ?r 0" by simp
  from shutdown_closes_all_then_exits [of "\<lambda>_. True" ?r UncaughtException]
  have d: "exits (process_on (\<lambda>_. True) ?r UncaughtException) = [1]"
    and e: "closes (process_on (\<lambda>_. True) ?r UncaughtException) = map snd ?r"
    by simp_all
  from c d e show ?thesis by (simp add: shutdown_def object_values_def)
qed

end
